theory Spec2Isabelle
  imports Complex_Main
begin

section \<open>The Docker plugin of letce2: a model of \<^verbatim>\<open>plugin.py\<close>\<close>

text \<open>
  The plugin drives four phases (\<^verbatim>\<open>build\<close>, \<^verbatim>\<open>start\<close>, \<^verbatim>\<open>stop\<close>, \<^verbatim>\<open>clean\<close>) by
  touching the file system, running external commands and calling the letce2 engine.
  Each phase is modelled as a program over an explicit world: the file system, the
  ordered trace of everything the phase did, and the number of clock readings taken.
  What the outside world answers (the exit status of a command, the clock, the engine's
  results) is a parameter of the model, the environment.
\<close>

subsection \<open>Paths and the file system\<close>

text \<open>
  A path is the tuple of its components, as \<^verbatim>\<open>pathlib.PurePosixPath.parts\<close> gives it:
  an absolute path starts with the component \<^verbatim>\<open>/\<close>, empty components and \<^verbatim>\<open>.\<close>
  components are dropped. Two leading slashes are read as one, \<^verbatim>\<open>..\<close> is an ordinary
  component and symbolic links are not followed: two spellings of one location that
  differ in these ways are different paths of the model.
\<close>

type_synonym path = "string list"

fun split_on :: "char \<Rightarrow> string \<Rightarrow> string list" where
  "split_on c [] = [[]]"
| "split_on c (x # xs) =
     (if x = c then [] # split_on c xs
      else (case split_on c xs of
              [] \<Rightarrow> [[x]]
            | w # ws \<Rightarrow> (x # w) # ws))"

definition Path :: "string \<Rightarrow> path" where
  "Path s =
     (if take 1 s = ''/'' then [''/''] else []) @
     filter (\<lambda>c. c \<noteq> [] \<and> c \<noteq> ''.'') (split_on (CHR ''/'') s)"

definition parent :: "path \<Rightarrow> path" where
  "parent p = (if p = [''/''] then p else butlast p)"

text \<open>The path itself and its ancestors below the working directory, outermost first.\<close>

definition lineage :: "path \<Rightarrow> path list" where
  "lineage p = map (\<lambda>n. take n p) [1..<Suc (length p)]"

text \<open>\<open>under d p\<close>: \<open>p\<close> is \<open>d\<close> or lies inside the tree rooted at \<open>d\<close>.\<close>

definition under :: "path \<Rightarrow> path \<Rightarrow> bool" where
  "under d p = (take (length d) p = d)"

datatype kind = File | Dir

type_synonym filesystem = "path \<Rightarrow> kind option"

text \<open>The working directory (the empty tuple) and the root always exist.\<close>

definition is_dir :: "filesystem \<Rightarrow> path \<Rightarrow> bool" where
  "is_dir f p = (p = [] \<or> p = [''/''] \<or> f p = Some Dir)"

definition path_exists :: "filesystem \<Rightarrow> path \<Rightarrow> bool" where
  "path_exists f p = (p = [] \<or> p = [''/''] \<or> f p \<noteq> None)"

subsection \<open>Events, exceptions and programs\<close>

datatype stream = Stdout | Stderr

datatype event =
    Print stream string
  | Mkdir path
  | Touch path
  | Unlink path
  | OpenWrite path
  | Run "string list"
  | Popen "string list" path
  | BuildConfiguration "string list" "string list" "string list" string string string string
  | NodesToManifest "string list" string
  | CleanConfiguration "string list" string

text \<open>Printing a message is the only event that changes nothing outside the process.\<close>

fun is_effect :: "event \<Rightarrow> bool" where
  "is_effect (Print s m) = False"
| "is_effect e = True"

text \<open>
  The exceptions the phases can meet. \<open>CalledProcessError\<close> carries the command, its
  exit status and its captured error output; \<open>OtherException\<close> stands for every other
  subclass of \<^verbatim>\<open>Exception\<close> (\<^verbatim>\<open>OSError\<close> and its family, an error of the engine) and
  carries its message. \<^verbatim>\<open>sys.exit\<close> is not an \<^verbatim>\<open>Exception\<close> and is a result of its own.
\<close>

datatype exn =
    CalledProcessError "string list" int string
  | OtherException string

datatype 'a result = Value 'a | Raise exn | SysExit int

record world =
  files :: filesystem
  trace :: "event list"
  ticks :: nat

type_synonym 'a prog = "world \<Rightarrow> 'a result \<times> world"

definition bind_prog :: "'a prog \<Rightarrow> ('a \<Rightarrow> 'b prog) \<Rightarrow> 'b prog" where
  "bind_prog m k w =
     (case m w of
        (Value x, w') \<Rightarrow> k x w'
      | (Raise e, w') \<Rightarrow> (Raise e, w')
      | (SysExit n, w') \<Rightarrow> (SysExit n, w'))"

definition seq_prog :: "unit prog \<Rightarrow> 'b prog \<Rightarrow> 'b prog" where
  "seq_prog m k = bind_prog m (\<lambda>u. k)"

definition return :: "'a \<Rightarrow> 'a prog" where
  "return x w = (Value x, w)"

definition raise :: "exn \<Rightarrow> 'a prog" where
  "raise e w = (Raise e, w)"

definition sys_exit :: "int \<Rightarrow> 'a prog" where
  "sys_exit n w = (SysExit n, w)"

text \<open>
  \<^verbatim>\<open>try: m except ...\<close>: the handler chooses the clause for the exception, or \<open>None\<close>
  when no clause matches and the exception goes on. \<^verbatim>\<open>sys.exit\<close> passes every
  \<^verbatim>\<open>except Exception\<close>.
\<close>

definition try_except :: "unit prog \<Rightarrow> (exn \<Rightarrow> unit prog option) \<Rightarrow> unit prog" where
  "try_except m h w =
     (case m w of
        (Raise e, w') \<Rightarrow> (case h e of None \<Rightarrow> (Raise e, w') | Some k \<Rightarrow> k w')
      | (Value x, w') \<Rightarrow> (Value x, w')
      | (SysExit n, w') \<Rightarrow> (SysExit n, w'))"

text \<open>\<^verbatim>\<open>for x in xs: body\<close>.\<close>

primrec for_each :: "'a list \<Rightarrow> ('a \<Rightarrow> unit prog) \<Rightarrow> unit prog" where
  "for_each [] body = return ()"
| "for_each (x # xs) body = seq_prog (body x) (for_each xs body)"

text \<open>
  The status the process ends with: 0 when the phase returns, the argument of
  \<^verbatim>\<open>sys.exit\<close>, and 1 when an exception reaches the interpreter's top level.
\<close>

fun exit_status :: "'a result \<Rightarrow> int" where
  "exit_status (Value x) = 0"
| "exit_status (SysExit n) = n"
| "exit_status (Raise e) = 1"

definition emit :: "event \<Rightarrow> world \<Rightarrow> world" where
  "emit e w = w\<lparr>trace := trace w @ [e]\<rparr>"

definition effects :: "world \<Rightarrow> event list" where
  "effects w = filter is_effect (trace w)"

subsection \<open>The environment and the command line\<close>

text \<open>
  What an external command does when it is run: it cannot be started at all (the
  \<^verbatim>\<open>OSError\<close> of \<^verbatim>\<open>subprocess\<close>, with its message), or it runs and exits with a
  status and some captured error output.
\<close>

datatype proc_result = SpawnFails string | Exited int string

text \<open>
  The letce2 engine (\<^verbatim>\<open>letce2.engine.build\<close>) is another package: its three functions
  are parameters. Each returns normally or raises.
\<close>

record env =
  run_result :: "string list \<Rightarrow> proc_result"
  clock :: "nat \<Rightarrow> real"
  getcwd :: string
  build_configuration ::
    "string list \<Rightarrow> string list \<Rightarrow> string list \<Rightarrow> string \<Rightarrow> string \<Rightarrow> string \<Rightarrow> string
      \<Rightarrow> exn + string list"
  nodes_to_manifest :: "string list \<Rightarrow> string \<Rightarrow> exn option"
  clean_configuration :: "string list \<Rightarrow> string \<Rightarrow> exn option"

text \<open>The argument dictionary, one field per key the plugin reads or declares.\<close>

record args =
  plugin_subcommand :: string
  lock_file :: string
  force :: bool
  environment :: string
  compose_file :: string
  scenario_delay :: int
  experiment_config :: "string list"
  include_filter :: "string list"
  exclude_filter :: "string list"
  include_file :: string
  exclude_file :: string
  manifest :: string

subsection \<open>Text\<close>

definition digit :: "nat \<Rightarrow> char" where
  "digit d = ''0123456789'' ! d"

fun show_nat :: "nat \<Rightarrow> string" where
  "show_nat n = (if n < 10 then [digit n] else show_nat (n div 10) @ [digit (n mod 10)])"

definition show_int :: "int \<Rightarrow> string" where
  "show_int i = (if i < 0 then ''-'' @ show_nat (nat (- i)) else show_nat (nat i))"

definition quote :: string where
  "quote = [char_of (39::nat)]"

text \<open>\<^verbatim>\<open>repr\<close> of a list of strings that hold no quote and no escape.\<close>

fun join :: "string \<Rightarrow> string list \<Rightarrow> string" where
  "join sep [] = []"
| "join sep [x] = x"
| "join sep (x # y # ys) = x @ sep @ join sep (y # ys)"

definition repr_list :: "string list \<Rightarrow> string" where
  "repr_list xs = ''['' @ join '', '' (map (\<lambda>x. quote @ x @ quote) xs) @ '']''"

text \<open>\<^verbatim>\<open>str(e)\<close>; for a command killed by a signal Python words the message differently.\<close>

fun str_exn :: "exn \<Rightarrow> string" where
  "str_exn (CalledProcessError c n err) =
     ''Command '' @ quote @ repr_list c @ quote @ '' returned non-zero exit status '' @
     show_int n @ ''.''"
| "str_exn (OtherException m) = m"

subsection \<open>The library calls the plugin makes\<close>

definition print_out :: "string \<Rightarrow> unit prog" where
  "print_out s w = (Value (), emit (Print Stdout s) w)"

definition print_err :: "string \<Rightarrow> unit prog" where
  "print_err s w = (Value (), emit (Print Stderr s) w)"

definition seqs :: "unit prog list \<Rightarrow> unit prog" where
  "seqs ms = foldr seq_prog ms (return ())"

definition Path_exists :: "path \<Rightarrow> bool prog" where
  "Path_exists p w = (Value (path_exists (files w) p), w)"

definition Path_is_dir :: "path \<Rightarrow> bool prog" where
  "Path_is_dir p w = (Value (is_dir (files w) p), w)"

text \<open>
  \<^verbatim>\<open>Path(p).mkdir(parents=True, exist_ok=True)\<close>: fails when the path or one of its
  ancestors is a file, and otherwise leaves the whole lineage as directories.
\<close>

definition mkdir_parents :: "path \<Rightarrow> unit prog" where
  "mkdir_parents p w =
     (let w1 = emit (Mkdir p) w in
      if list_ex (\<lambda>q. files w1 q = Some File) (lineage p)
      then (Raise (OtherException ''FileExistsError''), w1)
      else (Value (),
            w1\<lparr>files := (\<lambda>q. if q \<in> set (lineage p) then Some Dir else files w1 q)\<rparr>))"

text \<open>\<^verbatim>\<open>Path(p).touch()\<close>: creates an empty file unless something is there already.\<close>

definition touch :: "path \<Rightarrow> unit prog" where
  "touch p w =
     (let w1 = emit (Touch p) w in
      if path_exists (files w1) p then (Value (), w1)
      else if is_dir (files w1) (parent p)
      then (Value (), w1\<lparr>files := (files w1)(p \<mapsto> File)\<rparr>)
      else (Raise (OtherException ''FileNotFoundError''), w1))"

text \<open>\<^verbatim>\<open>Path(p).unlink()\<close>: removes a file, and fails on a directory or on nothing.\<close>

definition unlink :: "path \<Rightarrow> unit prog" where
  "unlink p w =
     (let w1 = emit (Unlink p) w in
      if files w1 p = Some File
      then (Value (), w1\<lparr>files := (files w1)(p := None)\<rparr>)
      else (Raise (OtherException ''IsADirectoryError''), w1))"

text \<open>\<^verbatim>\<open>open(p, 'w')\<close>: creates or truncates the file; its directory must exist.\<close>

definition open_write :: "path \<Rightarrow> unit prog" where
  "open_write p w =
     (let w1 = emit (OpenWrite p) w in
      if is_dir (files w1) (parent p) \<and> \<not> is_dir (files w1) p
      then (Value (), w1\<lparr>files := (files w1)(p \<mapsto> File)\<rparr>)
      else (Raise (OtherException ''OSError''), w1))"

definition remove_tree :: "path \<Rightarrow> filesystem \<Rightarrow> filesystem" where
  "remove_tree d f = (\<lambda>p. if under d p then None else f p)"

text \<open>
  What a finished command has done to the file system. The model follows one command,
  \<^verbatim>\<open>sudo rm -rf TARGET\<close> exiting with status 0, which removes the target and all below
  it. Nothing is said of a removal that reports a failure (it is modelled as removing
  nothing), and the container tool and the host scripts are not followed into the
  file system.
\<close>

fun command_effect :: "string list \<Rightarrow> int \<Rightarrow> filesystem \<Rightarrow> filesystem" where
  "command_effect [a, b, c, t] n f =
     (if a = ''sudo'' \<and> b = ''rm'' \<and> c = ''-rf'' \<and> n = 0 then remove_tree (Path t) f else f)"
| "command_effect cmd n f = f"

text \<open>\<^verbatim>\<open>subprocess.run(cmd, check=True, capture_output=True, text=True)\<close>.\<close>

definition subprocess_run_checked :: "env \<Rightarrow> string list \<Rightarrow> unit prog" where
  "subprocess_run_checked E cmd w =
     (let w1 = emit (Run cmd) w in
      case run_result E cmd of
        SpawnFails m \<Rightarrow> (Raise (OtherException m), w1)
      | Exited n err \<Rightarrow>
          (let w2 = w1\<lparr>files := command_effect cmd n (files w1)\<rparr> in
           if n = 0 then (Value (), w2) else (Raise (CalledProcessError cmd n err), w2)))"

text \<open>
  \<^verbatim>\<open>subprocess.run(cmd)\<close> and \<^verbatim>\<open>subprocess.call(cmd)\<close>: the exit status is returned to
  the caller, and every caller in the plugin drops it.
\<close>

definition subprocess_run :: "env \<Rightarrow> string list \<Rightarrow> unit prog" where
  "subprocess_run E cmd w =
     (let w1 = emit (Run cmd) w in
      case run_result E cmd of
        SpawnFails m \<Rightarrow> (Raise (OtherException m), w1)
      | Exited n err \<Rightarrow> (Value (), w1\<lparr>files := command_effect cmd n (files w1)\<rparr>))"

text \<open>
  \<^verbatim>\<open>with open(log, 'w') as log_file: subprocess.Popen(cmd, stdout=log_file, ...)\<close>: the
  child is started and not waited for, so its exit status is never seen.
\<close>

definition subprocess_Popen :: "env \<Rightarrow> string list \<Rightarrow> path \<Rightarrow> unit prog" where
  "subprocess_Popen E cmd logfile w =
     (let w1 = emit (Popen cmd logfile) w in
      case run_result E cmd of
        SpawnFails m \<Rightarrow> (Raise (OtherException m), w1)
      | Exited n err \<Rightarrow> (Value (), w1))"

definition time_time :: "env \<Rightarrow> real prog" where
  "time_time E w = (Value (clock E (ticks w)), w\<lparr>ticks := Suc (ticks w)\<rparr>)"

definition call_build_configuration :: "env \<Rightarrow> args \<Rightarrow> string list prog" where
  "call_build_configuration E a w =
     (let w1 = emit (BuildConfiguration (experiment_config a) (include_filter a)
                       (exclude_filter a) (include_file a) (exclude_file a) (manifest a)
                       ''letce2.plugins.docker'') w in
      case build_configuration E (experiment_config a) (include_filter a) (exclude_filter a)
             (include_file a) (exclude_file a) (manifest a) ''letce2.plugins.docker'' of
        Inl e \<Rightarrow> (Raise e, w1)
      | Inr nodes \<Rightarrow> (Value nodes, w1))"

definition call_nodes_to_manifest :: "env \<Rightarrow> string list \<Rightarrow> string \<Rightarrow> unit prog" where
  "call_nodes_to_manifest E nodes m w =
     (let w1 = emit (NodesToManifest nodes m) w in
      case nodes_to_manifest E nodes m of
        Some e \<Rightarrow> (Raise e, w1)
      | None \<Rightarrow> (Value (), w1))"

definition call_clean_configuration :: "env \<Rightarrow> string list \<Rightarrow> string \<Rightarrow> unit prog" where
  "call_clean_configuration E nodes m w =
     (let w1 = emit (CleanConfiguration nodes m) w in
      case clean_configuration E nodes m of
        Some e \<Rightarrow> (Raise e, w1)
      | None \<Rightarrow> (Value (), w1))"

subsection \<open>Time: \<^verbatim>\<open>time.gmtime\<close> and \<^verbatim>\<open>time.strftime\<close>\<close>

text \<open>
  The two library functions behind the start instant. \<^verbatim>\<open>gmtime\<close> takes the whole
  seconds since 1970-01-01 00:00:00 UTC and gives the fields of the proleptic Gregorian
  calendar; the day count is turned into a date by eras of 400 years, with the year
  starting in March. \<open>tm_wday\<close> counts from Monday, as Python does.
\<close>

record struct_time =
  tm_year :: int
  tm_mon :: int
  tm_mday :: int
  tm_hour :: int
  tm_min :: int
  tm_sec :: int
  tm_wday :: int

definition civil_from_days :: "int \<Rightarrow> int \<times> int \<times> int" where
  "civil_from_days z0 =
     (let z = z0 + 719468;
          era = z div 146097;
          doe = z - era * 146097;
          yoe = (doe - doe div 1460 + doe div 36524 - doe div 146096) div 365;
          doy = doe - (365 * yoe + yoe div 4 - yoe div 100);
          mp = (5 * doy + 2) div 153;
          d = doy - (153 * mp + 2) div 5 + 1;
          m = (if mp < 10 then mp + 3 else mp - 9);
          y = yoe + era * 400 + (if m \<le> 2 then 1 else 0)
      in (y, m, d))"

definition gmtime :: "int \<Rightarrow> struct_time" where
  "gmtime t =
     (let days = t div 86400;
          secs = t mod 86400;
          (y, m, d) = civil_from_days days
      in \<lparr>tm_year = y, tm_mon = m, tm_mday = d,
          tm_hour = secs div 3600, tm_min = secs mod 3600 div 60, tm_sec = secs mod 60,
          tm_wday = (days + 3) mod 7\<rparr>)"

definition day_abbr :: "string list" where
  "day_abbr = [''Mon'', ''Tue'', ''Wed'', ''Thu'', ''Fri'', ''Sat'', ''Sun'']"

definition month_abbr :: "string list" where
  "month_abbr = [''Jan'', ''Feb'', ''Mar'', ''Apr'', ''May'', ''Jun'',
                 ''Jul'', ''Aug'', ''Sep'', ''Oct'', ''Nov'', ''Dec'']"

definition two_digits :: "int \<Rightarrow> string" where
  "two_digits n = [digit (nat n div 10), digit (nat n mod 10)]"

text \<open>The directives the plugin's format uses (in the C locale), and \<^verbatim>\<open>%%\<close>.\<close>

definition directive :: "char \<Rightarrow> struct_time \<Rightarrow> string" where
  "directive c tm =
     (if c = CHR ''a'' then day_abbr ! nat (tm_wday tm)
      else if c = CHR ''b'' then month_abbr ! nat (tm_mon tm - 1)
      else if c = CHR ''d'' then two_digits (tm_mday tm)
      else if c = CHR ''H'' then two_digits (tm_hour tm)
      else if c = CHR ''M'' then two_digits (tm_min tm)
      else if c = CHR ''S'' then two_digits (tm_sec tm)
      else if c = CHR ''Y'' then show_int (tm_year tm)
      else if c = CHR ''%'' then ''%''
      else [CHR ''%'', c])"

fun strftime :: "string \<Rightarrow> struct_time \<Rightarrow> string" where
  "strftime [] tm = []"
| "strftime [c] tm = [c]"
| "strftime (c # d # cs) tm =
     (if c = CHR ''%'' then directive d tm @ strftime cs tm
      else c # strftime (d # cs) tm)"

subsection \<open>The phases\<close>

text \<open>
  The pictographs that open some of the plugin's messages are left out of the message
  texts; everything else is the text the plugin prints.
\<close>

text \<open>
  Lines 188-191, 211-214 and 377-380: \<^verbatim>\<open>build\<close>, \<^verbatim>\<open>start\<close> and \<^verbatim>\<open>clean\<close> open with the
  same three statements.
\<close>

definition remedy :: string where
  "remedy = ''   Run `letce2 docker stop` first or use '' @ quote @ ''--force'' @ quote"

definition lock_guard :: "args \<Rightarrow> unit prog" where
  "lock_guard a =
     bind_prog (Path_exists (Path (lock_file a))) (\<lambda>locked.
       if locked \<and> \<not> force a then
         seqs [print_err (''Lock file found: '' @ lock_file a),
               print_err remedy,
               sys_exit 1]
       else return ())"

text \<open>\<^verbatim>\<open>_do_build\<close>, lines 183-203.\<close>

definition do_build :: "env \<Rightarrow> args \<Rightarrow> unit prog" where
  "do_build E a =
     seqs [print_out ''Building Docker experiment configuration...'',
           lock_guard a,
           bind_prog (call_build_configuration E a) (\<lambda>nodes.
             print_out (''Built configuration for '' @ show_nat (length nodes) @ '' nodes''))]"

text \<open>Lines 216-219: the three workspace directories of every node.\<close>

definition create_workspaces :: "string list \<Rightarrow> unit prog" where
  "create_workspaces nodes =
     for_each nodes (\<lambda>node.
       seqs [mkdir_parents (Path (''persist/'' @ node @ ''/var/run'')),
             mkdir_parents (Path (''persist/'' @ node @ ''/var/log'')),
             mkdir_parents (Path (''persist/'' @ node @ ''/var/tmp''))])"

text \<open>Lines 224 and 320: the group definition is this fixed path, in both phases.\<close>

definition group_definition :: string where
  "group_definition = ''host/docker-compose.yml''"

text \<open>Lines 225-227.\<close>

definition require_group_definition :: "unit prog" where
  "require_group_definition =
     bind_prog (Path_exists (Path group_definition)) (\<lambda>found.
       if found = False then
         seqs [print_err (''Docker Compose file not found: '' @ group_definition),
               sys_exit 1]
       else return ())"

text \<open>Lines 229-254: bring the containers up, then record the lock.\<close>

definition bring_up :: "env \<Rightarrow> args \<Rightarrow> unit prog" where
  "bring_up E a =
     try_except
       (seqs [print_out (''Starting containers from '' @ group_definition @ ''...''),
              subprocess_run_checked E
                [''docker'', ''compose'', ''-f'', group_definition, ''up'', ''-d''],
              print_out ''Docker experiment started successfully'',
              print_out (''   Use `docker compose -f '' @ group_definition @
                         '' ps` to check status''),
              mkdir_parents (parent (Path (lock_file a))),
              touch (Path (lock_file a))])
       (\<lambda>e. case e of
          CalledProcessError c n err \<Rightarrow>
            Some (seqs [print_err (''Failed to start containers: '' @ str_exn e),
                        (if err \<noteq> [] then print_err err else return ()),
                        sys_exit 1])
        | OtherException m \<Rightarrow>
            Some (seqs [print_err (''Error: '' @ str_exn e), sys_exit 1]))"

text \<open>Lines 256-258: the start instant, from one reading of the clock.\<close>

definition rfc2822_format :: string where
  "rfc2822_format = ''%a, %d %b %Y %H:%M:%S +0000''"

definition start_instant :: "real \<Rightarrow> int \<Rightarrow> string" where
  "start_instant now delay = strftime rfc2822_format (gmtime \<lfloor>now + real_of_int delay\<rfloor>)"

definition compute_start_utc :: "env \<Rightarrow> args \<Rightarrow> string prog" where
  "compute_start_utc E a =
     bind_prog (time_time E) (\<lambda>now. return (start_instant now (scenario_delay a)))"

text \<open>Lines 261-286: the four host commands, inside one \<^verbatim>\<open>try\<close>.\<close>

definition host_prepare :: "env \<Rightarrow> args \<Rightarrow> string \<Rightarrow> unit prog" where
  "host_prepare E a start_utc =
     try_except
       (seqs [subprocess_run E
                [''sudo'', ''host/control'', ''prestart'', getcwd E, environment a, start_utc],
              subprocess_run E [''sudo'', ''host/bridge'', ''start''],
              subprocess_run E [''sudo'', ''sysctl'', ''kernel.sched_rt_runtime_us=-1''],
              subprocess_run E
                [''sudo'', ''host/control'', ''start'', getcwd E, environment a, start_utc]])
       (\<lambda>e. Some (seqs [print_err (''Error during experiment start: '' @ str_exn e),
                         sys_exit 1]))"

text \<open>Lines 293-303 and 305-313: the two launches of one node.\<close>

definition init_command :: "string \<Rightarrow> string \<Rightarrow> string list" where
  "init_command node start_utc =
     [''docker'', ''exec'', ''letce2-'' @ node @ ''-emane'', ''bash'', ''-c'',
      ''/experiment/'' @ node @ ''/init /experiment '' @ node @ '' '' @ quote @ quote @
      '' '' @ quote @ start_utc @ quote]"

definition biz_init_command :: "string \<Rightarrow> string \<Rightarrow> string list" where
  "biz_init_command node start_utc =
     [''docker'', ''exec'', ''letce2-'' @ node @ ''-biz'', ''bash'', ''-c'',
      ''/experiment/'' @ node @ ''/biz-init /experiment '' @ node @ '' '' @ quote @ quote @
      '' '' @ quote @ start_utc @ quote]"

definition init_log :: "string \<Rightarrow> path" where
  "init_log node = Path (''./persist/'' @ node @ ''/var/log/init.log'')"

definition biz_init_log :: "string \<Rightarrow> path" where
  "biz_init_log node = Path (''./persist/'' @ node @ ''/var/log/biz_init.log'')"

definition launch :: "env \<Rightarrow> string list \<Rightarrow> path \<Rightarrow> unit prog" where
  "launch E cmd logfile = seqs [open_write logfile, subprocess_Popen E cmd logfile]"

text \<open>Lines 288-313.\<close>

definition fan_out :: "env \<Rightarrow> string list \<Rightarrow> string \<Rightarrow> unit prog" where
  "fan_out E nodes start_utc =
     seqs [print_out ''Initializing nodes...'',
           for_each nodes (\<lambda>node.
             if node = ''host'' then return ()
             else seqs [launch E (init_command node start_utc) (init_log node),
                        launch E (biz_init_command node start_utc) (biz_init_log node)])]"

text \<open>\<^verbatim>\<open>_do_start\<close>, lines 206-313.\<close>

definition do_start :: "env \<Rightarrow> string list \<Rightarrow> args \<Rightarrow> unit prog" where
  "do_start E nodes a =
     seqs [print_out ''Starting Docker experiment...'',
           lock_guard a,
           create_workspaces nodes,
           require_group_definition,
           bring_up E a,
           bind_prog (compute_start_utc E a) (\<lambda>start_utc.
             seqs [host_prepare E a start_utc,
                   fan_out E nodes start_utc])]"

text \<open>Lines 327-351 of \<^verbatim>\<open>_do_stop\<close>: take the containers down, then drop the lock.\<close>

definition take_down :: "env \<Rightarrow> args \<Rightarrow> unit prog" where
  "take_down E a =
     try_except
       (seqs [print_out ''Stopping and removing containers...'',
              subprocess_run_checked E
                [''docker'', ''compose'', ''-f'', group_definition, ''down''],
              print_out ''Docker experiment stopped successfully'',
              bind_prog (Path_exists (Path (lock_file a))) (\<lambda>locked.
                if locked then unlink (Path (lock_file a)) else return ())])
       (\<lambda>e. case e of
          CalledProcessError c n err \<Rightarrow>
            Some (seqs [print_err (''Failed to stop containers: '' @ str_exn e),
                        (if err \<noteq> [] then print_err err else return ()),
                        (if \<not> force a then sys_exit 1 else return ())])
        | OtherException m \<Rightarrow>
            Some (seqs [print_err (''Error: '' @ str_exn e), sys_exit 1]))"

text \<open>Lines 353-366.\<close>

definition host_release :: "env \<Rightarrow> args \<Rightarrow> unit prog" where
  "host_release E a =
     try_except
       (subprocess_run E [''sudo'', ''host/control'', ''stop'', getcwd E, environment a])
       (\<lambda>e. Some (seqs [print_err (''Error during experiment stop: '' @ str_exn e),
                         sys_exit 1]))"

text \<open>\<^verbatim>\<open>_do_stop\<close>, lines 316-370.\<close>

definition do_stop :: "env \<Rightarrow> string list \<Rightarrow> args \<Rightarrow> unit prog" where
  "do_stop E nodes a =
     seqs [print_out ''Stopping Docker experiment...'',
           bind_prog (Path_exists (Path group_definition)) (\<lambda>found.
             if \<not> found then
               seqs [print_err (''Docker Compose file not found: '' @ group_definition),
                     (if \<not> force a then sys_exit 1 else return ())]
             else return ()),
           take_down E a,
           host_release E a,
           subprocess_run E [''sudo'', ''sysctl'', ''kernel.sched_rt_runtime_us=950000'']]"

text \<open>Lines 382-396 of \<^verbatim>\<open>_do_clean\<close>: remove the workspaces.\<close>

definition remove_workspaces :: "env \<Rightarrow> string list \<Rightarrow> string list \<Rightarrow> args \<Rightarrow> unit prog" where
  "remove_workspaces E nodes_include nodes_exclude a =
     (if nodes_exclude = [] then
        bind_prog (Path_is_dir (Path ''persist'')) (\<lambda>there.
          if there then subprocess_run E [''sudo'', ''rm'', ''-rf'', ''persist'']
          else return ())
      else
        seqs [for_each nodes_include (\<lambda>node.
                bind_prog (Path_is_dir (Path (''persist/'' @ node))) (\<lambda>there.
                  if there then subprocess_run E [''sudo'', ''rm'', ''-rf'', ''persist/'' @ node]
                  else return ())),
              call_nodes_to_manifest E nodes_exclude (manifest a)])"

text \<open>\<^verbatim>\<open>_do_clean\<close>, lines 372-404.\<close>

definition do_clean :: "env \<Rightarrow> string list \<Rightarrow> string list \<Rightarrow> args \<Rightarrow> unit prog" where
  "do_clean E nodes_include nodes_exclude a =
     seqs [print_out ''Cleaning experiment files...'',
           lock_guard a,
           remove_workspaces E nodes_include nodes_exclude a,
           try_except
             (seqs [call_clean_configuration E nodes_include (manifest a),
                    print_out ''Cleaned up experiment files''])
             (\<lambda>e. Some (seqs [print_err (''Clean failed: '' @ str_exn e), sys_exit 1]))]"

text \<open>\<^verbatim>\<open>process\<close>, lines 159-181.\<close>

definition process :: "env \<Rightarrow> string list \<Rightarrow> string list \<Rightarrow> args \<Rightarrow> unit prog" where
  "process E nodes_include nodes_exclude a =
     seqs [print_out ''hello'',
           (if plugin_subcommand a = ''build'' then do_build E a
            else if plugin_subcommand a = ''start'' then do_start E nodes_include a
            else if plugin_subcommand a = ''stop'' then do_stop E nodes_include a
            else if plugin_subcommand a = ''clean'' then do_clean E nodes_include nodes_exclude a
            else seqs [print_err (''Unknown subcommand: '' @ plugin_subcommand a),
                       sys_exit 1])]"

subsection \<open>What the properties speak about\<close>


text \<open>The three commands of \<^verbatim>\<open>stop\<close>, by name.\<close>

definition down_command :: "string list" where
  "down_command = [''docker'', ''compose'', ''-f'', group_definition, ''down'']"

definition release_command :: "env \<Rightarrow> args \<Rightarrow> string list" where
  "release_command E a = [''sudo'', ''host/control'', ''stop'', getcwd E, environment a]"

definition restore_command :: "string list" where
  "restore_command = [''sudo'', ''sysctl'', ''kernel.sched_rt_runtime_us=950000'']"

definition down_succeeds :: "env \<Rightarrow> bool" where
  "down_succeeds E =
     (case run_result E down_command of Exited n err \<Rightarrow> n = 0 | SpawnFails m \<Rightarrow> False)"

text \<open>\<open>occurs_before x y tr\<close>: in \<open>tr\<close>, \<open>y\<close> happens at or after the first \<open>x\<close>.\<close>

definition occurs_before :: "event \<Rightarrow> event \<Rightarrow> event list \<Rightarrow> bool" where
  "occurs_before x y tr = (y \<in> set (dropWhile (\<lambda>e. e \<noteq> x) tr))"

subsection \<open>A concrete experiment\<close>

text \<open>
  An environment in which every command succeeds, the plugin's default arguments, and a
  working directory that holds the group definition and nothing else. The theorems are
  exercised on these and on variations of them.
\<close>

definition demo_env :: env where
  "demo_env =
     \<lparr>run_result = (\<lambda>cmd. Exited 0 []),
      clock = (\<lambda>n. 1727876660 + real n),
      getcwd = ''/exp'',
      build_configuration = (\<lambda>cfg inc exc incf excf man tmpl. Inr [''host'', ''n1'']),
      nodes_to_manifest = (\<lambda>nodes man. None),
      clean_configuration = (\<lambda>nodes man. None)\<rparr>"

definition demo_args :: args where
  "demo_args =
     \<lparr>plugin_subcommand = ''start'',
      lock_file = ''/var/run/lock/letce.lock'',
      force = False,
      environment = [],
      compose_file = ''docker-compose.yml'',
      scenario_delay = 40,
      experiment_config = [''experiment.cfg''],
      include_filter = [],
      exclude_filter = [],
      include_file = [],
      exclude_file = [],
      manifest = ''manifest''\<rparr>"

definition demo_world :: world where
  "demo_world =
     \<lparr>files = [[''host''] \<mapsto> Dir, [''host'', ''docker-compose.yml''] \<mapsto> File],
      trace = [],
      ticks = 0\<rparr>"

definition locked_world :: world where
  "locked_world =
     demo_world\<lparr>files := (files demo_world)
       ([''/'', ''var'', ''run'', ''lock'', ''letce.lock''] \<mapsto> File)\<rparr>"


section \<open>Proofs\<close>

subsection \<open>Running programs\<close>

lemma seqs_Nil: "seqs [] = return ()"
  by (simp add: seqs_def)

lemma seqs_Cons: "seqs (m # ms) = seq_prog m (seqs ms)"
  by (simp add: seqs_def)

lemma files_emit [simp]: "files (emit e w) = files w"
  by (simp add: emit_def)

lemma ticks_emit [simp]: "ticks (emit e w) = ticks w"
  by (simp add: emit_def)

lemma trace_emit [simp]: "trace (emit e w) = trace w @ [e]"
  by (simp add: emit_def)

lemmas run_simps = seqs_Cons seqs_Nil seq_prog_def bind_prog_def return_def sys_exit_def
  print_out_def print_err_def

lemma Path_lock_default:
  "Path ''/var/run/lock/letce.lock'' = [''/'', ''var'', ''run'', ''lock'', ''letce.lock'']"
  by (simp add: Path_def)

lemma effects_emit [simp]: "effects (emit e w) = effects w @ (if is_effect e then [e] else [])"
  by (simp add: effects_def)

lemma effects_files_update [simp]: "effects (w\<lparr>files := f\<rparr>) = effects w"
  by (simp add: effects_def)

lemma command_effect_5 [simp]: "command_effect [a, b, c, d, e] n f = f"
  by simp

lemma command_effect_3 [simp]: "command_effect [a, b, c] n f = f"
  by simp

lemmas demo_defs = demo_env_def demo_args_def demo_world_def locked_world_def

subsection \<open>The lock guard\<close>


lemma lock_guard_passed:
  assumes "force a \<or> \<not> path_exists (files w) (Path (lock_file a))"
  shows "lock_guard a w = (Value (), w)"
  using assms
  by (auto simp add: lock_guard_def bind_prog_def Path_exists_def return_def)






subsection \<open>Stop\<close>

lemmas stop_defs = do_stop_def take_down_def host_release_def run_simps try_except_def
  Path_exists_def subprocess_run_def subprocess_run_checked_def unlink_def
  down_command_def release_command_def restore_command_def Let_def

lemma stop_demo:
  "do_stop demo_env [''host'', ''n1''] demo_args locked_world =
     (Value (),
      \<lparr>files = [[''host''] \<mapsto> Dir, [''host'', ''docker-compose.yml''] \<mapsto> File],
       trace = [Print Stdout ''Stopping Docker experiment...'',
                Print Stdout ''Stopping and removing containers...'',
                Run down_command,
                Print Stdout ''Docker experiment stopped successfully'',
                Unlink (Path (lock_file demo_args)),
                Run (release_command demo_env demo_args),
                Run restore_command],
       ticks = 0\<rparr>)"
  by (simp add: stop_defs demo_defs Path_lock_default group_definition_def Path_def path_exists_def
      emit_def)


text \<open>
  C7, as the code has it. A \<^verbatim>\<open>stop\<close> that ends with status 0 has done, in this order:
  the container-group down command; the removal of the lock artifact, when the down
  command succeeded and the lock existed; the host control stop command; and last the
  restoration of the real-time scheduling constraint. The lock goes right after the
  down step and before the host-network release, not after it.
\<close>

theorem stop_order:
  assumes "exit_status (fst (do_stop E nodes a w)) = 0"
  shows "effects (snd (do_stop E nodes a w)) =
           effects w @ [Run down_command] @
           (if down_succeeds E \<and> path_exists (files w) (Path (lock_file a))
            then [Unlink (Path (lock_file a))] else []) @
           [Run (release_command E a), Run restore_command]"
  using assms
  by (auto simp add: stop_defs down_succeeds_def split: proc_result.splits if_splits)

theorem stop_order_witness:
  "exit_status (fst (do_stop demo_env [''host'', ''n1''] demo_args locked_world)) = 0 \<and>
   effects (snd (do_stop demo_env [''host'', ''n1''] demo_args locked_world)) =
     effects locked_world @ [Run down_command] @
     (if down_succeeds demo_env \<and> path_exists (files locked_world) (Path (lock_file demo_args))
      then [Unlink (Path (lock_file demo_args))] else []) @
     [Run (release_command demo_env demo_args), Run restore_command]"
proof -
  have ok: "exit_status (fst (do_stop demo_env [''host'', ''n1''] demo_args locked_world)) = 0"
    by (simp add: stop_demo)
  show ?thesis
    using stop_order [OF ok] ok by simp
qed

text \<open>
  The claim as stated fails: on the concrete experiment with the lock in place, \<^verbatim>\<open>stop\<close>
  succeeds and the lock is removed before the host control stop command runs; the
  release does not come before the removal.
\<close>

theorem stop_unlinks_before_release:
  "exit_status (fst (do_stop demo_env [''host'', ''n1''] demo_args locked_world)) = 0 \<and>
   occurs_before (Unlink (Path (lock_file demo_args))) (Run (release_command demo_env demo_args))
     (trace (snd (do_stop demo_env [''host'', ''n1''] demo_args locked_world))) \<and>
   \<not> occurs_before (Run (release_command demo_env demo_args))
       (Unlink (Path (lock_file demo_args)))
       (trace (snd (do_stop demo_env [''host'', ''n1''] demo_args locked_world)))"
  by (simp add: stop_demo occurs_before_def release_command_def restore_command_def
      down_command_def)




subsection \<open>The \<^verbatim>\<open>--compose-file\<close> option\<close>

lemma lock_guard_compose: "lock_guard (a\<lparr>compose_file := x\<rparr>) = lock_guard a"
  by (simp add: lock_guard_def cong: if_cong)

lemma bring_up_compose: "bring_up E (a\<lparr>compose_file := x\<rparr>) = bring_up E a"
  by (simp add: bring_up_def)

lemma compute_start_utc_compose:
  "compute_start_utc E (a\<lparr>compose_file := x\<rparr>) = compute_start_utc E a"
  by (simp add: compute_start_utc_def)

lemma host_prepare_compose: "host_prepare E (a\<lparr>compose_file := x\<rparr>) s = host_prepare E a s"
  by (simp add: host_prepare_def)

lemma take_down_compose: "take_down E (a\<lparr>compose_file := x\<rparr>) = take_down E a"
  by (simp add: take_down_def cong: if_cong exn.case_cong)

lemma host_release_compose: "host_release E (a\<lparr>compose_file := x\<rparr>) = host_release E a"
  by (simp add: host_release_def)

lemma do_start_compose: "do_start E nodes (a\<lparr>compose_file := x\<rparr>) = do_start E nodes a"
  by (simp add: do_start_def lock_guard_compose bring_up_compose compute_start_utc_compose
      host_prepare_compose)

lemma do_stop_compose: "do_stop E nodes (a\<lparr>compose_file := x\<rparr>) = do_stop E nodes a"
  by (simp add: do_stop_def take_down_compose host_release_compose cong: if_cong)

text \<open>
  C10. The value of \<^verbatim>\<open>--compose-file\<close> changes nothing in \<^verbatim>\<open>start\<close> and \<^verbatim>\<open>stop\<close>: for any
  two values, with everything else equal (arguments, environment, world), both phases
  return the same result and leave the same world, trace included. The group definition
  they use is the fixed \<open>group_definition\<close>.
\<close>

theorem compose_file_option_ignored:
  "do_start E nodes (a\<lparr>compose_file := x\<rparr>) w = do_start E nodes (a\<lparr>compose_file := y\<rparr>) w \<and>
   do_stop E nodes (a\<lparr>compose_file := x\<rparr>) w = do_stop E nodes (a\<lparr>compose_file := y\<rparr>) w \<and>
   group_definition = ''host/docker-compose.yml''"
  by (simp add: do_start_compose do_stop_compose group_definition_def)

theorem compose_file_option_ignored_witness:
  "do_start demo_env [''host'', ''n1''] (demo_args\<lparr>compose_file := ''a.yml''\<rparr>) demo_world =
     do_start demo_env [''host'', ''n1''] (demo_args\<lparr>compose_file := ''b.yml''\<rparr>) demo_world \<and>
   do_stop demo_env [''host'', ''n1''] (demo_args\<lparr>compose_file := ''a.yml''\<rparr>) locked_world =
     do_stop demo_env [''host'', ''n1''] (demo_args\<lparr>compose_file := ''b.yml''\<rparr>) locked_world"
  using compose_file_option_ignored [where E = demo_env and nodes = "[''host'', ''n1'']"
      and a = demo_args and x = "''a.yml''" and y = "''b.yml''" and w = demo_world]
    compose_file_option_ignored [where E = demo_env and nodes = "[''host'', ''n1'']"
      and a = demo_args and x = "''a.yml''" and y = "''b.yml''" and w = locked_world]
  by simp

end
